theory Spec2Isabelle
  imports Complex_Main "HOL-Library.Multiset"
begin

section \<open>Python values, exceptions and the observable state\<close>

text \<open>
  A Python \<open>str\<close> is modelled by its UTF-8 bytes (an Isabelle \<open>string\<close>), so that
  \<open>s.encode('utf-8')\<close> and \<open>b.decode('utf-8')\<close> are the identity on the representation.
  The values \<open>json.load\<close> and \<open>response.json()\<close> produce are the datatype \<open>json\<close>; a
  dict is an association list looked up with \<open>map_of\<close>.
\<close>

datatype json =
    JNull
  | JBool bool
  | JInt int
  | JFloat rat
  | JStr string
  | JList "json list"
  | JDict "(string \<times> json) list"

text \<open>
  The exception classes the sources name or can meet. \<open>Timeout\<close>, \<open>HTTPError\<close> and
  \<open>ConnectionError\<close> are subclasses of \<open>requests.exceptions.RequestException\<close>;
  \<open>SystemExit\<close> and \<open>KeyboardInterrupt\<close> derive from \<open>BaseException\<close> only, so
  \<open>except Exception\<close> lets them through. The string is what \<open>str(e)\<close> gives.
\<close>

datatype exn_class =
    Timeout | HTTPError | ConnectionError | RequestException
  | JSONDecodeError | KeyError | TypeError | AttributeError | ValueError | OSError
  | OtherException | SystemExit | KeyboardInterrupt

datatype exn = Exn (cls: exn_class) (msg: string)

definition is_RequestException :: "exn_class \<Rightarrow> bool" where
  "is_RequestException c \<longleftrightarrow> c = Timeout \<or> c = HTTPError \<or> c = ConnectionError \<or> c = RequestException"

definition is_Exception :: "exn_class \<Rightarrow> bool" where
  "is_Exception c \<longleftrightarrow> c \<noteq> SystemExit \<and> c \<noteq> KeyboardInterrupt"

datatype http_method = GET | POST

record request =
  meth :: http_method
  url :: string
  params :: "(string \<times> json) list"
  json_body :: "json option"
  headers :: "(string \<times> string) list"
  timeout :: nat
  verify :: bool

record response =
  status_code :: nat
  reason :: string
  body :: string

record public_key =
  modulus :: nat
  exponent :: nat

datatype getapi_op =
    GetInverterInfo | GetPvData | GetGridData | GetBatteryData
  | GetLoadData | GetOutputData | GetDCACTemp | GetInverterSettingsData

text \<open>Every call that leaves the modelled sources is recorded, in order, with its arguments.\<close>

datatype call =
    Http request
  | Load_pem_public_key string
  | ConnectionTest_call string string string string string string
  | Getapi_call getapi_op json string
  | DownloadProviderSettings_call json string
  | GetNewSettingsFromHAEntity_call json string
  | ResetSettingsEntity_call string

datatype color = OKBLUE | OKCYAN | OKGREEN | MAGENTA | WARNING | FAIL | ENDC | BOLD

text \<open>
  The world outside the process: the files of the working directory, the value of the
  staging entity \<open>input_text.solarsynkv3_<serial>_settings\<close> of each device, and the rest
  (cloud API, Home Assistant, clock, random source), which stays abstract.
\<close>

record 'x world =
  files :: "string \<rightharpoonup> string"
  staging :: "string \<rightharpoonup> string"
  rest :: 'x

text \<open>
  The state a run threads through: the world, the calls made so far, the console
  (one entry per \<open>print\<close>, colour codes kept apart from the text) and the records
  \<open>logging.error\<close> wrote.
\<close>

datatype piece = Col color | Lit string

record 'x state =
  world :: "'x world"
  calls :: "call list"
  console :: "piece list list"
  logfile :: "string list"

text \<open>
  The collaborators that are not among the sources are parameters: library functions
  (\<open>json\<close>, \<open>requests\<close>, \<open>cryptography\<close>, \<open>time\<close>, \<open>str\<close> on a value that is not a
  string, \<open>traceback.format_exc\<close>), the modules \<open>getapi\<close>, \<open>postapi\<close> and
  \<open>settingsmanager\<close>, and the order in which the interpreter runs started threads.
  Each may raise and may change the world.
\<close>

record 'x env =
  json_loads :: "string \<Rightarrow> exn + json"
  py_str :: "json \<Rightarrow> string"
  format_exc :: "exn \<Rightarrow> string"
  time_ms :: "'x world \<Rightarrow> int"
  datetime_now :: "'x world \<Rightarrow> string"
  nonzero_random_bytes :: "nat \<Rightarrow> 'x world \<Rightarrow> string"
  requests :: "request \<Rightarrow> 'x world \<Rightarrow> (exn + response) \<times> 'x world"
  load_pem_public_key :: "string \<Rightarrow> exn + public_key"
  getapi :: "getapi_op \<Rightarrow> json \<Rightarrow> string \<Rightarrow> 'x world \<Rightarrow> (exn + unit) \<times> 'x world"
  ConnectionTest :: "string \<Rightarrow> string \<Rightarrow> string \<Rightarrow> string \<Rightarrow> string \<Rightarrow> string
                     \<Rightarrow> 'x world \<Rightarrow> (exn + string) \<times> 'x world"
  DownloadProviderSettings :: "json \<Rightarrow> string \<Rightarrow> 'x world \<Rightarrow> (exn + unit) \<times> 'x world"
  GetNewSettingsFromHAEntity :: "json \<Rightarrow> string \<Rightarrow> 'x world \<Rightarrow> (exn + unit) \<times> 'x world"
  schedule :: "'x world \<Rightarrow> nat list"

subsection \<open>Sequencing, raising and catching\<close>

type_synonym ('x, 'a) prog = "'x state \<Rightarrow> (exn + 'a) \<times> 'x state"

definition ret :: "'a \<Rightarrow> ('x, 'a) prog" where
  "ret a st = (Inr a, st)"

definition raise :: "exn \<Rightarrow> ('x, 'a) prog" where
  "raise e st = (Inl e, st)"

definition bind :: "('x, 'a) prog \<Rightarrow> ('a \<Rightarrow> ('x, 'b) prog) \<Rightarrow> ('x, 'b) prog" where
  "bind m f st = (case m st of (Inl e, st') \<Rightarrow> (Inl e, st') | (Inr a, st') \<Rightarrow> f a st')"

definition lift :: "exn + 'a \<Rightarrow> ('x, 'a) prog" where
  "lift r st = (r, st)"

text \<open>\<open>try: m except <classes accepted by handles>: h\<close>.\<close>

definition try_except :: "('x, 'a) prog \<Rightarrow> (exn_class \<Rightarrow> bool) \<Rightarrow> (exn \<Rightarrow> ('x, 'a) prog) \<Rightarrow> ('x, 'a) prog" where
  "try_except m handles h st =
     (case m st of
        (Inl e, st') \<Rightarrow> if handles (cls e) then h e st' else (Inl e, st')
      | (Inr a, st') \<Rightarrow> (Inr a, st'))"

definition invoke :: "call \<Rightarrow> ('x world \<Rightarrow> (exn + 'a) \<times> 'x world) \<Rightarrow> ('x, 'a) prog" where
  "invoke c f st =
     (case f (world st) of (r, w') \<Rightarrow> (r, st\<lparr>world := w', calls := calls st @ [c]\<rparr>))"

definition print :: "piece list \<Rightarrow> ('x, unit) prog" where
  "print line st = (Inr (), st\<lparr>console := console st @ [line]\<rparr>)"

definition logging_error :: "string \<Rightarrow> ('x, unit) prog" where
  "logging_error m st = (Inr (), st\<lparr>logfile := logfile st @ [m]\<rparr>)"

text \<open>\<open>str(v)\<close>: a \<open>str\<close> is returned as it is.\<close>

definition str :: "'x env \<Rightarrow> json \<Rightarrow> string" where
  "str env v = (case v of JStr s \<Rightarrow> s | _ \<Rightarrow> py_str env v)"

text \<open>\<open>v[k]\<close> for a string key \<open>k\<close>.\<close>

definition subscript :: "'x env \<Rightarrow> json \<Rightarrow> string \<Rightarrow> exn + json" where
  "subscript env v k =
     (case v of
        JDict kvs \<Rightarrow> (case map_of kvs k of
                        None \<Rightarrow> Inl (Exn KeyError ([CHR 0x27] @ k @ [CHR 0x27]))
                      | Some x \<Rightarrow> Inr x)
      | _ \<Rightarrow> Inl (Exn TypeError (py_str env v)))"

text \<open>\<open>v.get(k)\<close>: only a dict has the method; a missing key gives \<open>None\<close>.\<close>

definition dict_get :: "'x env \<Rightarrow> json \<Rightarrow> string \<Rightarrow> exn + json" where
  "dict_get env v k =
     (case v of
        JDict kvs \<Rightarrow> (case map_of kvs k of None \<Rightarrow> Inr JNull | Some x \<Rightarrow> Inr x)
      | _ \<Rightarrow> Inl (Exn AttributeError (py_str env v)))"

text \<open>\<open>open(path)\<close> followed by reading the whole file.\<close>

definition open_read :: "string \<Rightarrow> 'x world \<Rightarrow> exn + string" where
  "open_read path w =
     (case files w path of
        None \<Rightarrow> Inl (Exn OSError (''[Errno 2] No such file or directory: '' @ path))
      | Some content \<Rightarrow> Inr content)"

text \<open>\<open>response.raise_for_status()\<close> and \<open>response.json()\<close> of \<open>requests\<close>.\<close>

definition raise_for_status :: "'x env \<Rightarrow> request \<Rightarrow> response \<Rightarrow> exn + unit" where
  "raise_for_status env rq r =
     (if 400 \<le> status_code r \<and> status_code r < 500 then
        Inl (Exn HTTPError (py_str env (JInt (int (status_code r))) @ '' Client Error: ''
               @ reason r @ '' for url: '' @ url rq))
      else if 500 \<le> status_code r \<and> status_code r < 600 then
        Inl (Exn HTTPError (py_str env (JInt (int (status_code r))) @ '' Server Error: ''
               @ reason r @ '' for url: '' @ url rq))
      else Inr ())"

definition response_json :: "'x env \<Rightarrow> response \<Rightarrow> exn + json" where
  "response_json env r = json_loads env (body r)"

section \<open>utils.py\<close>

definition print_colored :: "string \<Rightarrow> color \<Rightarrow> ('x, unit) prog" where
  "print_colored message c = print [Col c, Lit message, Col ENDC]"

definition load_settings :: "'x env \<Rightarrow> string \<Rightarrow> ('x, json) prog" where
  "load_settings env settings_path =
     try_except
       (\<lambda>st. bind (lift (open_read settings_path (world st))) (\<lambda>content. lift (json_loads env content)) st)
       is_Exception
       (\<lambda>e. bind (logging_error (''Failed to load settings: '' @ msg e)) (\<lambda>_.
             bind (print [Col FAIL, Lit ''Error loading settings.json. Ensure the file exists and is valid JSON.'', Col ENDC]) (\<lambda>_.
             raise (Exn SystemExit ''1''))))"

section \<open>gettoken.py\<close>

definition pem_header :: string where
  "pem_header = ''-----BEGIN PUBLIC KEY-----''"

definition pem_footer :: string where
  "pem_footer = ''-----END PUBLIC KEY-----''"

text \<open>
  \<open>StringIO.writelines(lines)\<close> writes each element of \<open>lines\<close> in turn and adds no
  separator; an element that is not a \<open>str\<close> raises \<open>TypeError\<close>. After \<open>seek(0)\<close>,
  \<open>read()\<close> gives everything written.
\<close>

fun writelines :: "'x env \<Rightarrow> json list \<Rightarrow> exn + string" where
  "writelines env [] = Inr []"
| "writelines env (JStr s # ls) =
     (case writelines env ls of Inl e \<Rightarrow> Inl e | Inr t \<Rightarrow> Inr (s @ t))"
| "writelines env (v # ls) = Inl (Exn TypeError (py_str env v))"

definition public_key_request :: "int \<Rightarrow> request" where
  "public_key_request nonce =
     \<lparr>meth = GET, url = ''https://api.sunsynk.net/anonymous/publicKey'',
      params = [(''source'', JStr ''sunsynk''), (''nonce'', JInt nonce)],
      json_body = None, headers = [], timeout = 10, verify = True\<rparr>"

definition get_public_key :: "'x env \<Rightarrow> ('x, public_key) prog" where
  "get_public_key env st =
     (let rq = public_key_request (time_ms env (world st)) in
      bind (invoke (Http rq) (requests env rq)) (\<lambda>response.
      bind (lift (raise_for_status env rq response)) (\<lambda>_.
      bind (lift (response_json env response)) (\<lambda>parsed.
      bind (lift (subscript env parsed ''data'')) (\<lambda>data.
      bind (lift (writelines env [JStr pem_header, data, JStr pem_footer])) (\<lambda>public_key_file.
      invoke (Load_pem_public_key public_key_file)
             (\<lambda>w. (load_pem_public_key env public_key_file, w))))))) st)"

subsection \<open>\<open>base64.b64encode\<close> (RFC 4648, standard alphabet, padded)\<close>

definition b64_alphabet :: string where
  "b64_alphabet = ''ABCDEFGHIJKLMNOPQRSTUVWXYZabcdefghijklmnopqrstuvwxyz0123456789+/''"

definition b64_char :: "nat \<Rightarrow> char" where
  "b64_char i = b64_alphabet ! (i mod 64)"

fun b64encode :: "string \<Rightarrow> string" where
  "b64encode [] = []"
| "b64encode [a] =
     (let n = of_char a * 65536 in
      [b64_char (n div 262144), b64_char (n div 4096), CHR ''='', CHR ''=''])"
| "b64encode [a, b] =
     (let n = of_char a * 65536 + of_char b * 256 in
      [b64_char (n div 262144), b64_char (n div 4096), b64_char (n div 64), CHR ''=''])"
| "b64encode (a # b # c # bs) =
     (let n = of_char a * 65536 + of_char b * 256 + of_char c in
      [b64_char (n div 262144), b64_char (n div 4096), b64_char (n div 64), b64_char n]
      @ b64encode bs)"

subsection \<open>RSA encryption with PKCS\#1 v1.5 padding (RFC 8017, section 7.2.1)\<close>

text \<open>
  \<open>public_key.encrypt(data, padding=PKCS1v15())\<close> of the \<open>cryptography\<close> library for an
  RSA key: with \<open>k\<close> the length of the modulus in octets, a message longer than
  \<open>k - 11\<close> octets is refused (\<open>ValueError\<close>); otherwise the block
  \<open>00 02 PS 00 M\<close>, where \<open>PS\<close> is \<open>k - 3 - |M|\<close> random octets, none of them zero,
  is read as a big-endian integer, raised to the public exponent modulo the modulus, and
  written back as \<open>k\<close> octets.
\<close>

fun octet_length :: "nat \<Rightarrow> nat" where
  "octet_length n = (if n = 0 then 0 else Suc (octet_length (n div 256)))"

definition os2ip :: "string \<Rightarrow> nat" where
  "os2ip bs = foldl (\<lambda>acc b. acc * 256 + of_char b) 0 bs"

fun i2osp :: "nat \<Rightarrow> nat \<Rightarrow> string" where
  "i2osp x 0 = []"
| "i2osp x (Suc l) = i2osp (x div 256) l @ [char_of (x mod 256)]"

definition rsaep :: "public_key \<Rightarrow> nat \<Rightarrow> nat" where
  "rsaep key m = m ^ exponent key mod modulus key"

definition eme_pkcs1_v15 :: "string \<Rightarrow> string \<Rightarrow> string" where
  "eme_pkcs1_v15 ps m = [char_of (0::nat), char_of (2::nat)] @ ps @ [char_of (0::nat)] @ m"

definition pkcs1v15_encrypt :: "'x env \<Rightarrow> public_key \<Rightarrow> string \<Rightarrow> 'x world \<Rightarrow> exn + string" where
  "pkcs1v15_encrypt env key m w =
     (let k = octet_length (modulus key) in
      if k < length m + 11 then Inl (Exn ValueError ''Encryption failed'')
      else Inr (i2osp (rsaep key (os2ip (eme_pkcs1_v15 (nonzero_random_bytes env (k - 3 - length m) w) m))) k))"

subsection \<open>The functions of gettoken.py\<close>

text \<open>\<open>_encrypt_password\<close>: only a \<open>str\<close> has \<open>encode\<close>.\<close>

definition encrypt_password :: "'x env \<Rightarrow> json \<Rightarrow> public_key \<Rightarrow> ('x, string) prog" where
  "encrypt_password env password key st =
     (case password of
        JStr p \<Rightarrow> bind (lift (pkcs1v15_encrypt env key p (world st))) (\<lambda>c. ret (b64encode c)) st
      | _ \<Rightarrow> raise (Exn AttributeError (py_str env password)) st)"

definition token_payload :: "string \<Rightarrow> json \<Rightarrow> json" where
  "token_payload encrypted_password username =
     JDict [(''areaCode'', JStr ''sunsynk''),
            (''client_id'', JStr ''csp-web''),
            (''grant_type'', JStr ''password''),
            (''password'', JStr encrypted_password),
            (''source'', JStr ''sunsynk''),
            (''username'', username)]"

definition token_request :: "string \<Rightarrow> json \<Rightarrow> request" where
  "token_request u payload =
     \<lparr>meth = POST, url = u, params = [], json_body = Some payload,
      headers = [(''Content-Type'', ''application/json'')], timeout = 10, verify = True\<rparr>"

text \<open>\<open>_authenticate\<close>.\<close>

definition authenticate :: "'x env \<Rightarrow> json \<Rightarrow> string \<Rightarrow> ('x, json) prog" where
  "authenticate env json_settings encrypted_password =
     bind (lift (subscript env json_settings ''API_Server'')) (\<lambda>api_server.
     bind (lift (subscript env json_settings ''sunsynk_user'')) (\<lambda>username.
     let rq = token_request (''https://'' @ str env api_server @ ''/oauth/token/new'')
                (token_payload encrypted_password username) in
     bind (invoke (Http rq) (requests env rq)) (\<lambda>response.
     bind (lift (raise_for_status env rq response)) (\<lambda>_.
     bind (lift (response_json env response)) (\<lambda>parsed_login_json.
     bind (lift (dict_get env parsed_login_json ''msg'')) (\<lambda>m.
     if m = JStr ''Success'' then
       bind (lift (subscript env parsed_login_json ''msg'')) (\<lambda>m'.
       bind (print_colored (''Sunsynk Login: '' @ str env m') OKGREEN) (\<lambda>_.
       bind (lift (subscript env parsed_login_json ''data'')) (\<lambda>d.
       lift (subscript env d ''access_token''))))
     else
       bind (lift (subscript env parsed_login_json ''msg'')) (\<lambda>m'.
       bind (print_colored (''Sunsynk Login: '' @ str env m') FAIL) (\<lambda>_.
       ret (JStr '''')))))))))"

text \<open>The four \<open>except\<close> clauses of \<open>gettoken\<close>, tried in the order of the source.\<close>

definition gettoken_except :: "exn \<Rightarrow> ('x, json) prog" where
  "gettoken_except e =
     bind (if cls e = Timeout then
             print_colored ''Error: Request timed out while connecting to Sunsynk API.'' FAIL
           else if is_RequestException (cls e) then
             print_colored (''Error: Failed to connect to Sunsynk API. '' @ msg e) FAIL
           else if cls e = JSONDecodeError then
             print_colored ''Error: Failed to parse Sunsynk API response.'' FAIL
           else
             print_colored (''Unexpected error during authentication: '' @ msg e) FAIL)
       (\<lambda>_. ret (JStr ''''))"

text \<open>The body of the \<open>try\<close> statement of \<open>gettoken\<close>.\<close>

definition token_exchange :: "'x env \<Rightarrow> json \<Rightarrow> ('x, json) prog" where
  "token_exchange env json_settings =
     bind (get_public_key env) (\<lambda>public_key.
     bind (lift (subscript env json_settings ''sunsynk_pass'')) (\<lambda>password.
     bind (encrypt_password env password public_key) (\<lambda>encrypted_password.
     authenticate env json_settings encrypted_password)))"

definition gettoken :: "'x env \<Rightarrow> ('x, json) prog" where
  "gettoken env =
     bind (load_settings env ''/data/options.json'') (\<lambda>json_settings.
     try_except (token_exchange env json_settings) is_Exception gettoken_except)"

section \<open>entity\_manager.py\<close>

text \<open>The truth value of a value in \<open>if v:\<close>.\<close>

fun truthy :: "json \<Rightarrow> bool" where
  "truthy JNull = False"
| "truthy (JBool b) = b"
| "truthy (JInt i) = (i \<noteq> 0)"
| "truthy (JFloat r) = (r \<noteq> 0)"
| "truthy (JStr s) = (s \<noteq> [])"
| "truthy (JList xs) = (xs \<noteq> [])"
| "truthy (JDict kvs) = (kvs \<noteq> [])"

definition load_ha_settings :: "'x env \<Rightarrow> string \<Rightarrow> ('x, json) prog" where
  "load_ha_settings env config_path =
     try_except
       (\<lambda>st. bind (lift (open_read config_path (world st))) (\<lambda>content. lift (json_loads env content)) st)
       is_Exception
       (\<lambda>e. bind (print [Col FAIL, Lit (''Error loading settings from '' @ config_path @ '': '' @ msg e), Col ENDC]) (\<lambda>_.
             raise e))"

definition get_ha_url_and_headers :: "'x env \<Rightarrow> string \<Rightarrow> ('x, string \<times> (string \<times> string) list) prog" where
  "get_ha_url_and_headers env config_path =
     bind (load_ha_settings env config_path) (\<lambda>json_settings.
     bind (lift (subscript env json_settings ''Enable_HTTPS'')) (\<lambda>enable_https.
     let httpurl_proto = (if truthy enable_https then ''https'' else ''http'') in
     bind (lift (subscript env json_settings ''Home_Assistant_IP'')) (\<lambda>ip.
     bind (lift (subscript env json_settings ''Home_Assistant_PORT'')) (\<lambda>port.
     bind (lift (subscript env json_settings ''HA_LongLiveToken'')) (\<lambda>token.
     ret (httpurl_proto @ ''://'' @ str env ip @ '':'' @ str env port,
          [(''Content-Type'', ''application/json''),
           (''Authorization'', ''Bearer '' @ str env token)]))))))"

definition entity_request :: "string \<Rightarrow> (string \<times> string) list \<Rightarrow> string \<Rightarrow> request" where
  "entity_request base_url hdrs entity_id =
     \<lparr>meth = GET, url = base_url @ ''/api/states/'' @ entity_id, params = [], json_body = None,
      headers = hdrs, timeout = 10, verify = False\<rparr>"

definition check_entity_exists :: "'x env \<Rightarrow> string \<Rightarrow> string \<Rightarrow> ('x, bool) prog" where
  "check_entity_exists env entity_id config_path =
     try_except
       (bind (get_ha_url_and_headers env config_path) (\<lambda>(base_url, hdrs).
        let rq = entity_request base_url hdrs entity_id in
        bind (invoke (Http rq) (requests env rq)) (\<lambda>response.
        if status_code response = 200 then ret True
        else if status_code response = 404 then ret False
        else bind (lift (raise_for_status env rq response)) (\<lambda>_. ret False))))
       is_RequestException
       (\<lambda>e. bind (print [Col WARNING, Lit (''Error checking entity '' @ entity_id @ '': '' @ msg e), Col ENDC]) (\<lambda>_.
             ret False))"

section \<open>main.py\<close>

text \<open>
  \<open>fetch_data\<close>. The function passed as \<open>api_function\<close> is one of the eight of
  \<open>getapi\<close>, named by its tag.
\<close>

definition fetch_data :: "'x env \<Rightarrow> getapi_op \<Rightarrow> json \<Rightarrow> string \<Rightarrow> string \<Rightarrow> ('x, unit) prog" where
  "fetch_data env api_function bearer_token serial_item description =
     try_except
       (bind (print_colored (''Fetching '' @ description @ ''...'') WARNING) (\<lambda>_.
        invoke (Getapi_call api_function bearer_token serial_item)
               (getapi env api_function bearer_token serial_item)))
       is_Exception
       (\<lambda>e. bind (logging_error (''Error fetching '' @ description @ '': '' @ msg e)) (\<lambda>_.
             bind (print_colored (''Error fetching '' @ description @ '': '' @ msg e) FAIL) (\<lambda>_.
             print [Lit (format_exc env e)])))"

definition api_calls :: "(getapi_op \<times> string) list" where
  "api_calls =
     [(GetInverterInfo, ''Inverter Information''),
      (GetPvData, ''PV Data''),
      (GetGridData, ''Grid Data''),
      (GetBatteryData, ''Battery Data''),
      (GetLoadData, ''Load Data''),
      (GetOutputData, ''Output Data''),
      (GetDCACTemp, ''DC & AC Temperature Data''),
      (GetInverterSettingsData, ''Inverter Settings'')]"

text \<open>
  Threads. \<open>n\<close> threads are started and then all joined, so each target runs exactly once
  before the join loop ends; the order in which they run is the scheduler's. Whatever list
  the scheduler proposes, \<open>run_order\<close> makes an order of the \<open>n\<close> threads of it: the
  threads it names, each once, then the ones it left out. Every order of the threads arises
  this way. A target is run as one step, and what it raises is dropped: an exception that
  leaves a thread's target ends that thread only.
\<close>

definition run_order :: "nat \<Rightarrow> nat list \<Rightarrow> nat list" where
  "run_order n proposal =
     (let named = remdups (filter (\<lambda>i. i < n) proposal)
      in named @ filter (\<lambda>i. i \<notin> set named) [0..<n])"

fun run_threads :: "('x, unit) prog list \<Rightarrow> nat list \<Rightarrow> 'x state \<Rightarrow> 'x state" where
  "run_threads targets [] st = st"
| "run_threads targets (i # order) st = run_threads targets order (snd ((targets ! i) st))"

definition execute_api_calls :: "'x env \<Rightarrow> json \<Rightarrow> string \<Rightarrow> ('x, unit) prog" where
  "execute_api_calls env bearer_token serial_item st =
     (let threads = map (\<lambda>(api_function, description).
                           fetch_data env api_function bearer_token serial_item description) api_calls;
          joined = run_threads threads (run_order (length threads) (schedule env (world st))) st
      in print_colored ''All API calls completed successfully!'' OKGREEN joined)"

text \<open>
  Modelled from the spec: \<open>settingsmanager.ResetSettingsEntity\<close> is not among the sources.
  The spec's \<open>reset_staging_entity(deviceId)\<close> resets the staging entity of the device to an
  empty value.
\<close>

definition ResetSettingsEntity :: "string \<Rightarrow> ('x, unit) prog" where
  "ResetSettingsEntity serial_item =
     invoke (ResetSettingsEntity_call serial_item)
            (\<lambda>w. (Inr (), w\<lparr>staging := (staging w)(serial_item \<mapsto> [])\<rparr>))"

definition execute_settings_management :: "'x env \<Rightarrow> json \<Rightarrow> string \<Rightarrow> ('x, unit) prog" where
  "execute_settings_management env bearer_token serial_item =
     bind (invoke (DownloadProviderSettings_call bearer_token serial_item)
                  (DownloadProviderSettings env bearer_token serial_item)) (\<lambda>_.
     bind (invoke (GetNewSettingsFromHAEntity_call bearer_token serial_item)
                  (GetNewSettingsFromHAEntity env bearer_token serial_item)) (\<lambda>_.
     bind (print [Lit ''Cleaning out previous settings...'']) (\<lambda>_.
     ResetSettingsEntity serial_item)))"

text \<open>The block of \<open>process_inverter\<close> under the comment \<open>Clean cache\<close>.\<close>

definition os_remove :: "string \<Rightarrow> ('x, unit) prog" where
  "os_remove path st = (Inr (), st\<lparr>world := (world st)\<lparr>files := (files (world st))(path := None)\<rparr>\<rparr>)"

definition clean_cache :: "('x, unit) prog" where
  "clean_cache =
     bind (print [Lit ''Cleaning cache...'']) (\<lambda>_ st.
     if files (world st) ''settings.json'' \<noteq> None then
       bind (os_remove ''settings.json'') (\<lambda>_. print [Lit ''Old settings.json file removed.'']) st
     else ret () st)"

text \<open>
  The rest of \<open>process_inverter\<close>, from the comment \<open>Test API connection\<close> to the
  end of the function.
\<close>

definition test_and_process :: "'x env \<Rightarrow> json \<Rightarrow> string \<Rightarrow> ('x, unit) prog" where
  "test_and_process env bearer_token serial_item =
     bind (print_colored ''Testing HA API'' WARNING) (\<lambda>_.
     bind (invoke (ConnectionTest_call ''TEST'' ''A'' ''current'' ''connection_test''
                     ''connection_test_current'' ''100'')
                  (ConnectionTest env ''TEST'' ''A'' ''current'' ''connection_test''
                     ''connection_test_current'' ''100'')) (\<lambda>connection_result.
     bind (if connection_result = ''Connection Success'' then
             bind (print [Lit connection_result]) (\<lambda>_.
             bind (execute_api_calls env bearer_token serial_item) (\<lambda>_.
             execute_settings_management env bearer_token serial_item))
           else
             bind (print_colored connection_result FAIL) (\<lambda>_.
             print_colored ''Ensure correct IP, port, and Home Assistant accessibility.'' MAGENTA)) (\<lambda>_ st.
     print [Lit ''Script completion time: '', Col OKBLUE, Lit ('' '' @ datetime_now env (world st) @ '' ''),
            Col ENDC] st)))"

definition process_inverter :: "'x env \<Rightarrow> json \<Rightarrow> json \<Rightarrow> string \<Rightarrow> string \<Rightarrow> ('x, unit) prog" where
  "process_inverter env json_settings bearer_token serial_item current_date =
     bind (print_colored (''Getting '' @ serial_item @ '' @ '' @ current_date) OKCYAN) (\<lambda>_.
     bind (lift (subscript env json_settings ''Refresh_rate'')) (\<lambda>refresh_rate.
     bind (print [Lit ''Script refresh rate set to: '', Col OKCYAN, Lit (str env refresh_rate),
                  Col ENDC, Lit '' milliseconds'']) (\<lambda>_.
     bind clean_cache (\<lambda>_.
     test_and_process env bearer_token serial_item))))"

text \<open>The loop \<open>for serial_item in inverter_serials\<close> of \<open>main\<close>.\<close>

fun for_each_inverter :: "'x env \<Rightarrow> json \<Rightarrow> json \<Rightarrow> string list \<Rightarrow> string \<Rightarrow> ('x, unit) prog" where
  "for_each_inverter env json_settings bearer_token [] current_date = ret ()"
| "for_each_inverter env json_settings bearer_token (serial_item # serials) current_date =
     bind (process_inverter env json_settings bearer_token serial_item current_date) (\<lambda>_.
     for_each_inverter env json_settings bearer_token serials current_date)"

text \<open>
  \<open>main\<close>. The module globals \<open>json_settings\<close> and \<open>inverter_serials\<close>, set when the
  module is loaded, are arguments. The \<open>try\<close> statement yields \<open>None\<close> when its handler
  runs \<open>return\<close>, and the token otherwise.
\<close>

definition main :: "'x env \<Rightarrow> json \<Rightarrow> string list \<Rightarrow> ('x, unit) prog" where
  "main env json_settings inverter_serials st =
     (let current_date = datetime_now env (world st) in
      bind (print [Lit (replicate 78 CHR ''-'')]) (\<lambda>_.
      bind (print_colored ''Running Script SolarSynkV3'' MAGENTA) (\<lambda>_.
      bind (lift (subscript env json_settings ''API_Server'')) (\<lambda>api_server.
      bind (print [Lit ''Using API Endpoint: '', Col MAGENTA, Lit (str env api_server), Col ENDC]) (\<lambda>_.
      bind (print [Lit ''https://github.com/martinville/solarsynkv3'']) (\<lambda>_.
      bind (print [Lit (replicate 78 CHR ''-'')]) (\<lambda>_.
      bind (try_except
              (bind (gettoken env) (\<lambda>bearer_token.
               bind (if \<not> truthy bearer_token then
                       print [Lit ''Failed to retrieve Bearer Token. Check credentials or server status.'']
                     else ret ()) (\<lambda>_.
               ret (Some bearer_token))))
              is_Exception
              (\<lambda>e. bind (logging_error (''Token retrieval error: '' @ msg e)) (\<lambda>_.
                    bind (print_colored ''Error retrieving Bearer Token.'' FAIL) (\<lambda>_.
                    bind (print [Lit (format_exc env e)]) (\<lambda>_.
                    ret None))))) (\<lambda>r.
      case r of
        None \<Rightarrow> ret ()
      | Some bearer_token \<Rightarrow>
          bind (if truthy bearer_token then
                  for_each_inverter env json_settings bearer_token inverter_serials current_date
                else ret ()) (\<lambda>_.
          print_colored ''Script execution completed.'' OKBLUE)))))))) st)"

section \<open>Concrete collaborators\<close>

text \<open>
  Collaborators and a start state on which the functions above can be evaluated: no file,
  no staging entity, a network that refuses every request, a Home Assistant whose
  connection test succeeds, and \<open>getapi\<close> and \<open>settingsmanager\<close> functions that do nothing.
\<close>

definition state0 :: "unit state" where
  "state0 = \<lparr>world = \<lparr>files = Map.empty, staging = Map.empty, rest = ()\<rparr>,
             calls = [], console = [], logfile = []\<rparr>"

definition quiet_env :: "unit env" where
  "quiet_env =
     \<lparr>json_loads = (\<lambda>s. Inl (Exn JSONDecodeError ''Expecting value'')),
      py_str = (\<lambda>v. ''<value>''),
      format_exc = (\<lambda>e. ''Traceback: '' @ msg e),
      time_ms = (\<lambda>w. 0),
      datetime_now = (\<lambda>w. ''2024-01-01 00:00:00''),
      nonzero_random_bytes = (\<lambda>n w. replicate n (CHR 0x01)),
      requests = (\<lambda>rq w. (Inl (Exn ConnectionError ''unreachable''), w)),
      load_pem_public_key = (\<lambda>s. Inl (Exn ValueError ''Unable to load PEM file'')),
      getapi = (\<lambda>f t s w. (Inr (), w)),
      ConnectionTest = (\<lambda>a b c d e f w. (Inr ''Connection Success'', w)),
      DownloadProviderSettings = (\<lambda>t s w. (Inr (), w)),
      GetNewSettingsFromHAEntity = (\<lambda>t s w. (Inr (), w)),
      schedule = (\<lambda>w. [])\<rparr>"

text \<open>A key endpoint that answers 200 with the envelope \<open>{data: QUJD}\<close>.\<close>

definition key_env :: "unit env" where
  "key_env = quiet_env
     \<lparr>requests := (\<lambda>rq w. (Inr \<lparr>status_code = 200, reason = ''OK'', body = ''envelope''\<rparr>, w)),
      json_loads := (\<lambda>s. Inr (JDict [(''data'', JStr ''QUJD'')])),
      load_pem_public_key := (\<lambda>s. Inr \<lparr>modulus = 3233, exponent = 17\<rparr>)\<rparr>"

text \<open>
  The options file of the add-on, as \<open>json.load\<close> returns it, a world that holds it, and a
  Home Assistant that knows the staging entity of device \<open>A1\<close> only.
\<close>

definition options_entries :: "(string \<times> json) list" where
  "options_entries =
     [(''sunsynk_user'', JStr ''user@example.org''),
      (''sunsynk_pass'', JStr ''secret''),
      (''sunsynk_serial'', JStr ''A1;A2''),
      (''API_Server'', JStr ''api.sunsynk.net''),
      (''Refresh_rate'', JInt 300),
      (''Enable_HTTPS'', JBool False),
      (''Home_Assistant_IP'', JStr ''192.168.1.10''),
      (''Home_Assistant_PORT'', JStr ''8123''),
      (''HA_LongLiveToken'', JStr ''llt'')]"

definition options_json :: json where
  "options_json = JDict options_entries"

definition cfg_state :: "unit state" where
  "cfg_state = state0\<lparr>world := (world state0)\<lparr>files := [''/data/options.json'' \<mapsto> ''options'']\<rparr>\<rparr>"

definition cfg_env :: "unit env" where
  "cfg_env = quiet_env
     \<lparr>json_loads := (\<lambda>s. if s = ''options'' then Inr options_json
                          else Inl (Exn JSONDecodeError ''Expecting value''))\<rparr>"

definition ha_env :: "unit env" where
  "ha_env = cfg_env
     \<lparr>requests := (\<lambda>rq w.
        if url rq = ''http://192.168.1.10:8123/api/states/input_text.solarsynkv3_A1_settings''
        then (Inr \<lparr>status_code = 200, reason = ''OK'', body = ''state''\<rparr>, w)
        else (Inr \<lparr>status_code = 404, reason = ''Not Found'', body = ''''\<rparr>, w))\<rparr>"

text \<open>The calls made on behalf of a device: connection test, telemetry fetch, settings sync.\<close>

fun device_call :: "call \<Rightarrow> bool" where
  "device_call (ConnectionTest_call a b c d e f) = True"
| "device_call (Getapi_call f t s) = True"
| "device_call (DownloadProviderSettings_call t s) = True"
| "device_call (GetNewSettingsFromHAEntity_call t s) = True"
| "device_call (ResetSettingsEntity_call s) = True"
| "device_call (Http rq) = False"
| "device_call (Load_pem_public_key s) = False"

text \<open>The lines \<open>main\<close> prints before it asks for the token.\<close>

definition banner :: "'x env \<Rightarrow> json \<Rightarrow> piece list list" where
  "banner env api_server =
     [[Lit (replicate 78 CHR ''-'')],
      [Col MAGENTA, Lit ''Running Script SolarSynkV3'', Col ENDC],
      [Lit ''Using API Endpoint: '', Col MAGENTA, Lit (str env api_server), Col ENDC],
      [Lit ''https://github.com/martinville/solarsynkv3''],
      [Lit (replicate 78 CHR ''-'')]]"

text \<open>
  A cloud API that serves the key envelope and answers the login with a body chosen by the
  caller: \<open>login-ok\<close> carries \<open>msg = Success\<close> and a token, \<open>login-denied\<close> an error
  message.
\<close>

definition demo_key :: public_key where
  "demo_key = \<lparr>modulus = 2 ^ 160 + 7, exponent = 3\<rparr>"

definition cloud_json :: "string \<Rightarrow> exn + json" where
  "cloud_json s =
     (if s = ''options'' then Inr options_json
      else if s = ''key-envelope'' then Inr (JDict [(''data'', JStr ''QUJD'')])
      else if s = ''login-ok'' then
        Inr (JDict [(''code'', JInt 0), (''msg'', JStr ''Success''),
                    (''data'', JDict [(''access_token'', JStr ''tok123'')])])
      else if s = ''login-denied'' then
        Inr (JDict [(''code'', JInt 102), (''msg'', JStr ''Invalid credentials'')])
      else Inl (Exn JSONDecodeError ''Expecting value''))"

definition cloud_requests :: "string \<Rightarrow> request \<Rightarrow> unit world \<Rightarrow> (exn + response) \<times> unit world" where
  "cloud_requests login_body rq w =
     (if meth rq = GET \<and> url rq = ''https://api.sunsynk.net/anonymous/publicKey'' then
        (Inr \<lparr>status_code = 200, reason = ''OK'', body = ''key-envelope''\<rparr>, w)
      else if meth rq = POST \<and> url rq = ''https://api.sunsynk.net/oauth/token/new'' then
        (Inr \<lparr>status_code = 200, reason = ''OK'', body = login_body\<rparr>, w)
      else (Inr \<lparr>status_code = 404, reason = ''Not Found'', body = ''''\<rparr>, w))"

definition cloud_env :: "string \<Rightarrow> unit env" where
  "cloud_env login_body = quiet_env
     \<lparr>json_loads := cloud_json,
      requests := cloud_requests login_body,
      load_pem_public_key := (\<lambda>s.
        if s = ''-----BEGIN PUBLIC KEY-----QUJD-----END PUBLIC KEY-----'' then Inr demo_key
        else Inl (Exn ValueError ''Unable to load PEM file''))\<rparr>"

text \<open>
  Two states are the same but for the console when they agree on the world, on the calls
  made and on the log. A program is framed when, started in two such states, it gives the
  same result and leaves two such states: what it does never depends on what was printed.
\<close>

definition same_but_console :: "'x state \<Rightarrow> 'x state \<Rightarrow> bool" where
  "same_but_console st st' \<longleftrightarrow>
     world st = world st' \<and> calls st = calls st' \<and> logfile st = logfile st'"

definition frame :: "('x, 'a) prog \<Rightarrow> bool" where
  "frame m \<longleftrightarrow> (\<forall>st st'. same_but_console st st' \<longrightarrow>
       fst (m st) = fst (m st') \<and> same_but_console (snd (m st)) (snd (m st')))"

text \<open>The world in which the connection test of a device runs: the cache file is gone.\<close>

definition without_cache :: "'x world \<Rightarrow> 'x world" where
  "without_cache w = w\<lparr>files := (files w)(''settings.json'' := None)\<rparr>"

text \<open>The thread targets \<open>execute_api_calls\<close> creates, in the order of the registry.\<close>

definition fetch_threads :: "'x env \<Rightarrow> json \<Rightarrow> string \<Rightarrow> ('x, unit) prog list" where
  "fetch_threads env tok s = map (\<lambda>(f, d). fetch_data env f tok s d) api_calls"

text \<open>
  A \<open>getapi\<close> whose grid-data call always times out, under a scheduler that proposes the
  threads 7, 2, 2, 0 and 9.
\<close>

definition flaky_env :: "unit env" where
  "flaky_env = quiet_env
     \<lparr>getapi := (\<lambda>f t s w. if f = GetGridData then (Inl (Exn Timeout ''read timed out''), w)
                            else (Inr (), w)),
      schedule := (\<lambda>w. [7, 2, 2, 0, 9])\<rparr>"

text \<open>
  A device \<open>A1\<close> whose staging entity holds a pending change, and a \<open>settingsmanager\<close>
  whose download of the provider settings raises.
\<close>

definition staged_state :: "unit state" where
  "staged_state = cfg_state\<lparr>world := (world cfg_state)\<lparr>staging := [''A1'' \<mapsto> ''work_mode=1'']\<rparr>\<rparr>"

definition download_fails_env :: "unit env" where
  "download_fails_env = cfg_env
     \<lparr>DownloadProviderSettings :=
        (\<lambda>t s w. (Inl (Exn ConnectionError ''provider unreachable''), w))\<rparr>"

text \<open>
  A world that still holds a \<open>settings.json\<close> from an earlier run, and a Home Assistant
  whose connection test fails.
\<close>

definition stale_state :: "unit state" where
  "stale_state = cfg_state\<lparr>world := (world cfg_state)
     \<lparr>files := [''/data/options.json'' \<mapsto> ''options'', ''settings.json'' \<mapsto> ''old settings'']\<rparr>\<rparr>"

definition ha_down_env :: "unit env" where
  "ha_down_env = cfg_env
     \<lparr>ConnectionTest := (\<lambda>a b c d e f w. (Inr ''Connection Failed'', w))\<rparr>"

section \<open>Properties\<close>

subsection \<open>Sequencing\<close>

lemma bind_simps [simp]:
  "bind (ret a) f = f a"
  "bind (raise e) f = raise e"
  "bind (lift (Inr a)) f = f a"
  "bind (lift (Inl e)) f = raise e"
  by (auto simp: bind_def ret_def raise_def lift_def fun_eq_iff)

lemma bind_Inr: "m st = (Inr a, st') \<Longrightarrow> bind m f st = f a st'"
  by (simp add: bind_def)

lemma bind_Inl: "m st = (Inl e, st') \<Longrightarrow> bind m f st = (Inl e, st')"
  by (simp add: bind_def)

subsection \<open>The public key\<close>

text \<open>
  C5, as amended. When the key endpoint answers with a status that \<open>raise_for_status\<close>
  accepts and a JSON object whose \<open>data\<close> field is a string \<open>d\<close>, \<open>_get_public_key\<close>
  hands \<open>load_pem_public_key\<close> the header, \<open>d\<close> and the footer written one after the
  other with nothing between them, and returns what the loader returns.
\<close>

theorem get_public_key_blob:
  assumes "requests env (public_key_request (time_ms env (world st))) (world st) = (Inr r, w')"
    and "status_code r < 400 \<or> 600 \<le> status_code r"
    and "json_loads env (body r) = Inr (JDict kvs)"
    and "map_of kvs ''data'' = Some (JStr d)"
  shows "get_public_key env st =
           (load_pem_public_key env (pem_header @ d @ pem_footer),
            st\<lparr>world := w',
               calls := calls st @ [Http (public_key_request (time_ms env (world st))),
                                    Load_pem_public_key (pem_header @ d @ pem_footer)]\<rparr>)"
  using assms
  by (auto simp: get_public_key_def Let_def bind_def invoke_def lift_def raise_for_status_def
       response_json_def subscript_def)

theorem get_public_key_blob_witness:
  "get_public_key key_env state0 =
     (Inr \<lparr>modulus = 3233, exponent = 17\<rparr>,
      state0\<lparr>world := world state0,
             calls := calls state0 @ [Http (public_key_request 0),
               Load_pem_public_key (pem_header @ ''QUJD'' @ pem_footer)]\<rparr>)"
  using get_public_key_blob [of key_env state0 "\<lparr>status_code = 200, reason = ''OK'', body = ''envelope''\<rparr>"
          "world state0" "[(''data'', JStr ''QUJD'')]" "''QUJD''"]
  by (simp add: key_env_def quiet_env_def)

text \<open>
  C5 as stated fails: for the payload \<open>QUJD\<close> the text handed to the loader is a single
  line; no line break separates the header or the footer from the payload.
\<close>

theorem get_public_key_lines_counterexample:
  "calls (snd (get_public_key key_env state0)) =
     [Http (public_key_request 0),
      Load_pem_public_key ''-----BEGIN PUBLIC KEY-----QUJD-----END PUBLIC KEY-----'']
   \<and> CHR 0x0A \<notin> set ''-----BEGIN PUBLIC KEY-----QUJD-----END PUBLIC KEY-----''"
  by (simp add: get_public_key_def Let_def bind_def invoke_def lift_def raise_for_status_def
       response_json_def subscript_def key_env_def quiet_env_def state0_def pem_header_def
       pem_footer_def)

subsection \<open>Exception classes\<close>

lemma is_RequestException_simps [simp]:
  "is_RequestException Timeout" "is_RequestException HTTPError"
  "is_RequestException ConnectionError" "is_RequestException RequestException"
  "\<not> is_RequestException JSONDecodeError" "\<not> is_RequestException KeyError"
  "\<not> is_RequestException TypeError" "\<not> is_RequestException AttributeError"
  "\<not> is_RequestException ValueError" "\<not> is_RequestException OSError"
  "\<not> is_RequestException OtherException" "\<not> is_RequestException SystemExit"
  "\<not> is_RequestException KeyboardInterrupt"
  by (simp_all add: is_RequestException_def)

lemma is_Exception_simps [simp]:
  "is_Exception Timeout" "is_Exception HTTPError"
  "is_Exception ConnectionError" "is_Exception RequestException"
  "is_Exception JSONDecodeError" "is_Exception KeyError"
  "is_Exception TypeError" "is_Exception AttributeError"
  "is_Exception ValueError" "is_Exception OSError"
  "is_Exception OtherException" "\<not> is_Exception SystemExit"
  "\<not> is_Exception KeyboardInterrupt"
  by (simp_all add: is_Exception_def)

lemma is_RequestException_is_Exception: "is_RequestException c \<Longrightarrow> is_Exception c"
  by (auto simp: is_RequestException_def is_Exception_def)

subsection \<open>entity\_manager.check\_entity\_exists\<close>

text \<open>
  C9, as amended. Once the options file has been loaded and the URL and headers built from
  it, and as long as the GET either answers or raises a \<open>RequestException\<close>,
  \<open>check_entity_exists\<close> does not raise: it returns \<open>True\<close> exactly when the answer has
  status 200, and \<open>False\<close> for 404, for every other status and for every request exception.
\<close>

theorem check_entity_exists_result:
  assumes "get_ha_url_and_headers env config_path st = (Inr (base_url, hdrs), st1)"
    and "requests env (entity_request base_url hdrs entity_id) (world st1) = (r, w')"
    and "\<forall>e. r = Inl e \<longrightarrow> is_RequestException (cls e)"
  shows "fst (check_entity_exists env entity_id config_path st) =
           Inr (case r of Inl e \<Rightarrow> False | Inr resp \<Rightarrow> status_code resp = 200)"
  using assms
  by (auto simp: check_entity_exists_def try_except_def bind_def invoke_def Let_def ret_def
        lift_def print_def raise_for_status_def split: sum.splits prod.splits)

lemma cfg_url: "get_ha_url_and_headers ha_env ''/data/options.json'' cfg_state =
    (Inr (''http://192.168.1.10:8123'', [(''Content-Type'', ''application/json''),
           (''Authorization'', ''Bearer llt'')]), cfg_state)"
  by (simp add: get_ha_url_and_headers_def load_ha_settings_def try_except_def bind_def
      lift_def open_read_def cfg_state_def state0_def ha_env_def cfg_env_def quiet_env_def
      options_json_def options_entries_def subscript_def ret_def str_def Let_def)

theorem check_entity_exists_result_witness:
  "fst (check_entity_exists ha_env ''input_text.solarsynkv3_A1_settings'' ''/data/options.json'' cfg_state)
     = Inr True"
  using check_entity_exists_result [of ha_env "''/data/options.json''" cfg_state
     "''http://192.168.1.10:8123''"
     "[(''Content-Type'', ''application/json''), (''Authorization'', ''Bearer llt'')]" cfg_state
     "''input_text.solarsynkv3_A1_settings''"
     "Inr \<lparr>status_code = 200, reason = ''OK'', body = ''state''\<rparr>" "world cfg_state"]
  by (simp add: cfg_url) (simp add: ha_env_def cfg_env_def quiet_env_def entity_request_def)

text \<open>
  C9 as stated fails: with no options file, \<open>load_ha_settings\<close> re-raises the error of
  \<open>open\<close>, which is no \<open>RequestException\<close>, and \<open>check_entity_exists\<close> raises it.
\<close>

theorem check_entity_exists_raises_counterexample:
  "fst (check_entity_exists quiet_env ''input_text.solarsynkv3_A1_settings'' ''/data/options.json'' state0)
     = Inl (Exn OSError ''[Errno 2] No such file or directory: /data/options.json'')"
  by (simp add: check_entity_exists_def get_ha_url_and_headers_def load_ha_settings_def
      try_except_def bind_def lift_def open_read_def state0_def quiet_env_def print_def raise_def
      )

subsection \<open>Framing\<close>

lemma frameD:
  "frame m \<Longrightarrow> same_but_console st st' \<Longrightarrow> m st = (r, s) \<Longrightarrow> m st' = (r', s') \<Longrightarrow>
     r' = r \<and> same_but_console s s'"
  unfolding frame_def by (metis fst_conv snd_conv)

lemma frame_bind:
  assumes m: "frame m" and f: "\<And>a. frame (f a)"
  shows "frame (bind m f)"
  unfolding frame_def
proof (intro allI impI)
  fix st st' :: "'a state"
  assume w: "same_but_console st st'"
  obtain r s where p: "m st = (r, s)" by (cases "m st")
  obtain r' s' where p': "m st' = (r', s')" by (cases "m st'")
  from frameD [OF m w p p'] have e: "r' = r" "same_but_console s s'" by simp_all
  show "fst (bind m f st) = fst (bind m f st') \<and> same_but_console (snd (bind m f st)) (snd (bind m f st'))"
  proof (cases r)
    case (Inl x)
    then show ?thesis using p p' e by (simp add: bind_def)
  next
    case (Inr a)
    have "fst (f a s) = fst (f a s') \<and> same_but_console (snd (f a s)) (snd (f a s'))"
      using f [of a] e(2) unfolding frame_def by metis
    then show ?thesis using p p' e Inr by (simp add: bind_def)
  qed
qed

lemma frame_try_except:
  assumes m: "frame m" and h: "\<And>e. frame (h e)"
  shows "frame (try_except m handles h)"
  unfolding frame_def
proof (intro allI impI)
  fix st st' :: "'a state"
  assume w: "same_but_console st st'"
  obtain r s where p: "m st = (r, s)" by (cases "m st")
  obtain r' s' where p': "m st' = (r', s')" by (cases "m st'")
  from frameD [OF m w p p'] have e: "r' = r" "same_but_console s s'" by simp_all
  show "fst (try_except m handles h st) = fst (try_except m handles h st')
        \<and> same_but_console (snd (try_except m handles h st)) (snd (try_except m handles h st'))"
  proof (cases r)
    case (Inr a)
    then show ?thesis using p p' e by (simp add: try_except_def)
  next
    case (Inl x)
    have "fst (h x s) = fst (h x s') \<and> same_but_console (snd (h x s)) (snd (h x s'))"
      using h [of x] e(2) unfolding frame_def by metis
    then show ?thesis using p p' e Inl by (simp add: try_except_def)
  qed
qed

lemma frame_basic [simp]:
  "frame (ret a)" "frame (raise e)" "frame (lift r)" "frame (print l)"
  "frame (print_colored s col)" "frame (logging_error s)"
  by (simp_all add: frame_def same_but_console_def ret_def raise_def lift_def print_def
        print_colored_def logging_error_def)

lemma frame_invoke [simp]: "frame (invoke c g)"
  by (simp add: frame_def same_but_console_def invoke_def split: prod.splits)

lemma frame_world:
  assumes "\<And>w. frame (g w)"
  shows "frame (\<lambda>st. g (world st) st)"
  unfolding frame_def
proof (intro allI impI)
  fix st st' :: "'a state"
  assume w: "same_but_console st st'"
  then have "world st = world st'" by (simp add: same_but_console_def)
  then show "fst (g (world st) st) = fst (g (world st') st')
      \<and> same_but_console (snd (g (world st) st)) (snd (g (world st') st'))"
    using assms [of "world st"] w unfolding frame_def by simp
qed

lemma frame_get_public_key: "frame (get_public_key env)"
proof -
  define g where "g = (\<lambda>w. 
      (let rq = public_key_request (time_ms env w) in
      bind (invoke (Http rq) (requests env rq)) (\<lambda>response.
      bind (lift (raise_for_status env rq response)) (\<lambda>_.
      bind (lift (response_json env response)) (\<lambda>parsed.
      bind (lift (subscript env parsed ''data'')) (\<lambda>data.
      bind (lift (writelines env [JStr pem_header, data, JStr pem_footer])) (\<lambda>public_key_file.
      invoke (Load_pem_public_key public_key_file)
             (\<lambda>w. (load_pem_public_key env public_key_file, w)))))))))"
  have eq: "get_public_key env = (\<lambda>st. g (world st) st)"
    by (rule ext) (simp add: g_def get_public_key_def Let_def)
  have fr: "frame (g w)" for w
    unfolding g_def Let_def by (rule frame_bind frame_invoke | simp)+
  show ?thesis
    unfolding eq by (rule frame_world [of g]) (rule fr)
qed

lemma frame_encrypt_password: "frame (encrypt_password (env :: 'a env) p k)"
proof -
  define g :: "'a world \<Rightarrow> ('a, string) prog" where "g = (\<lambda>w. 
      (case p of
        JStr p \<Rightarrow> bind (lift (pkcs1v15_encrypt env k p w)) (\<lambda>c. ret (b64encode c))
      | _ \<Rightarrow> raise (Exn AttributeError (py_str env p))))"
  have eq: "encrypt_password env p k = (\<lambda>st. g (world st) st)"
    by (rule ext) (simp add: g_def encrypt_password_def split: json.splits)
  have fr: "frame (g w)" for w
    unfolding g_def by (cases p) (simp_all add: frame_bind)
  show ?thesis
    unfolding eq by (rule frame_world [of g]) (rule fr)
qed


lemma frame_authenticate: "frame (authenticate env js enc)"
  unfolding authenticate_def Let_def
  by (rule frame_bind frame_invoke conjI impI | simp)+

lemma frame_token_exchange: "frame (token_exchange env js)"
  unfolding token_exchange_def
  by (rule frame_bind frame_get_public_key frame_encrypt_password frame_authenticate | simp)+
subsection \<open>Token acquisition\<close>

lemma load_settings_ok:
  "files (world st) p = Some content \<Longrightarrow> json_loads env content = Inr js \<Longrightarrow>
   load_settings env p st = (Inr js, st)"
  by (simp add: load_settings_def try_except_def open_read_def lift_def)

lemma gettoken_except_result:
  "fst (gettoken_except e st) = Inr (JStr '''')"
  "world (snd (gettoken_except e st)) = world st"
  "calls (snd (gettoken_except e st)) = calls st"
  by (simp_all add: gettoken_except_def print_colored_def print_def bind_def ret_def)

lemma get_public_key_calls:
  "filter device_call (calls (snd (get_public_key env st))) = filter device_call (calls st)"
  by (auto simp: get_public_key_def Let_def bind_def invoke_def lift_def split: sum.splits prod.splits)

lemma encrypt_password_calls:
  "calls (snd (encrypt_password env p k st)) = calls st"
  by (auto simp: encrypt_password_def bind_def lift_def ret_def raise_def split: json.splits sum.splits)

lemma authenticate_calls:
  "filter device_call (calls (snd (authenticate env js enc st))) = filter device_call (calls st)"
  by (auto simp: authenticate_def Let_def bind_def invoke_def lift_def raise_def ret_def 
        print_colored_def print_def split: sum.splits prod.splits)

lemma bind_calls:
  assumes "filter device_call (calls (snd (m st))) = filter device_call (calls st)"
    and "\<And>a s. filter device_call (calls (snd (f a s))) = filter device_call (calls s)"
  shows "filter device_call (calls (snd (bind m f st))) = filter device_call (calls st)"
  using assms by (auto simp: bind_def split: sum.splits prod.splits)

lemma token_exchange_calls:
  "filter device_call (calls (snd (token_exchange env js st))) = filter device_call (calls st)"
  unfolding token_exchange_def
  by (rule bind_calls get_public_key_calls authenticate_calls
      | simp add: encrypt_password_calls lift_def)+
lemma gettoken_of_token_exchange:
  assumes "files (world st) ''/data/options.json'' = Some content" "json_loads env content = Inr js"
    and "(\<exists>e. fst (token_exchange env js st) = Inl e \<and> is_Exception (cls e))
         \<or> fst (token_exchange env js st) = Inr (JStr '''')"
  shows "fst (gettoken env st) = Inr (JStr '''')"
    and "filter device_call (calls (snd (gettoken env st))) = filter device_call (calls st)"
proof -
  obtain r st' where x: "token_exchange env js st = (r, st')"
    by (cases "token_exchange env js st")
  have c: "filter device_call (calls st') = filter device_call (calls st)"
    using token_exchange_calls [of env js st] x by simp
  have g: "gettoken env st = try_except (token_exchange env js) is_Exception gettoken_except st"
    by (simp add: gettoken_def bind_def load_settings_ok [OF assms(1,2)])
  show "fst (gettoken env st) = Inr (JStr '''')"
    using assms(3) x by (auto simp: g try_except_def gettoken_except_result)
  show "filter device_call (calls (snd (gettoken env st))) = filter device_call (calls st)"
    using assms(3) x c by (auto simp: g try_except_def gettoken_except_result)
qed

text \<open>
  C3. Let the options file load, and let the token exchange (the body of the \<open>try\<close> of
  \<open>gettoken\<close>: key fetch, encryption, login POST) fail: it raises an exception of class
  \<open>Exception\<close>, as an HTTP-level failure, a timeout and a JSON parse failure are, or it
  returns the empty string, as it does for a response whose \<open>msg\<close> is not \<open>Success\<close>.
  Then \<open>gettoken\<close> returns the empty token and does not raise, and \<open>main\<close> returns
  having made no call on behalf of any device: no connection test, no telemetry fetch and
  no settings-sync step.
\<close>

theorem token_failure_stops_run:
  assumes "json_settings = JDict cfg" and "map_of cfg ''API_Server'' = Some api_server"
    and "files (world st) ''/data/options.json'' = Some content"
    and "json_loads env content = Inr js"
    and "(\<exists>e. fst (token_exchange env js st) = Inl e \<and> is_Exception (cls e))
         \<or> fst (token_exchange env js st) = Inr (JStr '''')"
  shows "fst (gettoken env st) = Inr (JStr '''')
       \<and> fst (main env json_settings inverter_serials st) = Inr ()
       \<and> filter device_call (calls (snd (main env json_settings inverter_serials st)))
           = filter device_call (calls st)"
proof -
  define st_g where "st_g = st\<lparr>console := console st @ banner env api_server\<rparr>"
  have w: "world st_g = world st"
    by (simp add: st_g_def)
  have "same_but_console st_g st"
    by (simp add: st_g_def same_but_console_def)
  then have same: "fst (token_exchange env js st_g) = fst (token_exchange env js st)"
    using frame_token_exchange [of env js] unfolding frame_def by blast
  have fl: "files (world st_g) ''/data/options.json'' = Some content"
    using assms(3) w by simp
  have fail: "(\<exists>e. fst (token_exchange env js st_g) = Inl e \<and> is_Exception (cls e))
         \<or> fst (token_exchange env js st_g) = Inr (JStr '''')"
    using assms(5) same by simp
  note g = gettoken_of_token_exchange [OF fl assms(4) fail]
  obtain t st3 where t: "gettoken env st_g = (t, st3)"
    by (cases "gettoken env st_g")
  with g have t': "t = Inr (JStr '''')"
    and c: "filter device_call (calls st3) = filter device_call (calls st)"
    by (simp_all add: st_g_def)
  have m: "main env json_settings inverter_serials st =
        (Inr (), st3\<lparr>console := console st3 @
           [[Lit ''Failed to retrieve Bearer Token. Check credentials or server status.''],
            [Col OKBLUE, Lit ''Script execution completed.'', Col ENDC]]\<rparr>)"
    using t t' assms(1,2)
    by (simp add: main_def Let_def bind_def print_def print_colored_def lift_def subscript_def
          try_except_def ret_def banner_def st_g_def)
  show ?thesis
    using gettoken_of_token_exchange(1) [OF assms(3,4,5)] m c by simp
qed

lemma options_json_API_Server:
  "options_json = JDict options_entries"
  "map_of options_entries ''API_Server'' = Some (JStr ''api.sunsynk.net'')"
  "map_of options_entries ''Refresh_rate'' = Some (JInt 300)"
  "map_of options_entries ''sunsynk_user'' = Some (JStr ''user@example.org'')"
  by (simp_all add: options_json_def options_entries_def)

lemma cfg_state_file:
  "files (world cfg_state) ''/data/options.json'' = Some ''options''"
  by (simp add: cfg_state_def state0_def)

theorem token_failure_stops_run_witness:
  "fst (gettoken cfg_env cfg_state) = Inr (JStr '''')
   \<and> fst (main cfg_env options_json [''A1'', ''A2''] cfg_state) = Inr ()
   \<and> filter device_call (calls (snd (main cfg_env options_json [''A1'', ''A2''] cfg_state)))
       = filter device_call (calls cfg_state)"
proof -
  have f: "fst (token_exchange cfg_env options_json cfg_state)
             = Inl (Exn ConnectionError ''unreachable'')"
    by (simp add: token_exchange_def get_public_key_def bind_def invoke_def cfg_env_def
          quiet_env_def)
  have h4: "json_loads cfg_env ''options'' = Inr options_json"
    by (simp add: cfg_env_def)
  have h5: "(\<exists>e. fst (token_exchange cfg_env options_json cfg_state) = Inl e \<and> is_Exception (cls e))
         \<or> fst (token_exchange cfg_env options_json cfg_state) = Inr (JStr '''')"
    using f by simp
  show ?thesis
    by (rule token_failure_stops_run [OF options_json_API_Server(1,2) cfg_state_file h4 h5])
qed

subsection \<open>gettoken.\_authenticate\<close>

text \<open>
  C8. \<open>_authenticate\<close> sends one POST whose JSON body has exactly the fields
  \<open>areaCode\<close>, \<open>client_id\<close>, \<open>grant_type\<close>, \<open>password\<close> (the encrypted password),
  \<open>source\<close> and \<open>username\<close>, with a timeout of 10 seconds. For an answer that passes
  \<open>raise_for_status\<close> and whose JSON body has a \<open>msg\<close> field, it returns
  \<open>data.access_token\<close> when \<open>msg\<close> is \<open>Success\<close> and the empty string otherwise, and
  prints the server's \<open>msg\<close> as it is in both cases.
\<close>

theorem authenticate_result:
  assumes "json_settings = JDict cfg"
    and "map_of cfg ''API_Server'' = Some api_server"
    and "map_of cfg ''sunsynk_user'' = Some username"
    and "rq = \<lparr>meth = POST, url = ''https://'' @ str env api_server @ ''/oauth/token/new'',
               params = [],
               json_body = Some (JDict [(''areaCode'', JStr ''sunsynk''),
                                        (''client_id'', JStr ''csp-web''),
                                        (''grant_type'', JStr ''password''),
                                        (''password'', JStr encrypted_password),
                                        (''source'', JStr ''sunsynk''),
                                        (''username'', username)]),
               headers = [(''Content-Type'', ''application/json'')],
               timeout = 10, verify = True\<rparr>"
    and "requests env rq (world st) = (Inr r, w')"
    and "status_code r < 400 \<or> 600 \<le> status_code r"
    and "json_loads env (body r) = Inr (JDict kvs)"
    and "map_of kvs ''msg'' = Some m"
    and "m = JStr ''Success'' \<Longrightarrow>
           map_of kvs ''data'' = Some (JDict dvs) \<and> map_of dvs ''access_token'' = Some tok"
  shows "authenticate env json_settings encrypted_password st =
           (Inr (if m = JStr ''Success'' then tok else JStr ''''),
            st\<lparr>world := w',
               calls := calls st @ [Http rq],
               console := console st @
                 [[Col (if m = JStr ''Success'' then OKGREEN else FAIL),
                   Lit (''Sunsynk Login: '' @ str env m), Col ENDC]]\<rparr>)"
  using assms
  by (auto simp: authenticate_def Let_def bind_def invoke_def lift_def raise_for_status_def
       response_json_def subscript_def dict_get_def token_request_def token_payload_def
       print_colored_def print_def ret_def)

theorem authenticate_result_witness:
  "authenticate (cloud_env ''login-ok'') options_json ''Y2lwaGVy'' cfg_state =
     (Inr (JStr ''tok123''),
      cfg_state\<lparr>world := world cfg_state,
        calls := calls cfg_state @
          [Http \<lparr>meth = POST, url = ''https://api.sunsynk.net/oauth/token/new'', params = [],
                 json_body = Some (JDict [(''areaCode'', JStr ''sunsynk''),
                                          (''client_id'', JStr ''csp-web''),
                                          (''grant_type'', JStr ''password''),
                                          (''password'', JStr ''Y2lwaGVy''),
                                          (''source'', JStr ''sunsynk''),
                                          (''username'', JStr ''user@example.org'')]),
                 headers = [(''Content-Type'', ''application/json'')],
                 timeout = 10, verify = True\<rparr>],
        console := console cfg_state @ [[Col OKGREEN, Lit ''Sunsynk Login: Success'', Col ENDC]]\<rparr>)"
proof -
  let ?env = "cloud_env ''login-ok''"
  let ?rq = "\<lparr>meth = POST, url = ''https://api.sunsynk.net/oauth/token/new'', params = [],
                 json_body = Some (JDict [(''areaCode'', JStr ''sunsynk''),
                                          (''client_id'', JStr ''csp-web''),
                                          (''grant_type'', JStr ''password''),
                                          (''password'', JStr ''Y2lwaGVy''),
                                          (''source'', JStr ''sunsynk''),
                                          (''username'', JStr ''user@example.org'')]),
                 headers = [(''Content-Type'', ''application/json'')],
                 timeout = 10, verify = True\<rparr>"
  let ?r = "\<lparr>status_code = 200, reason = ''OK'', body = ''login-ok''\<rparr>"
  let ?kvs = "[(''code'', JInt 0), (''msg'', JStr ''Success''),
               (''data'', JDict [(''access_token'', JStr ''tok123'')])]"
  have u: "?rq = \<lparr>meth = POST,
               url = ''https://'' @ str ?env (JStr ''api.sunsynk.net'') @ ''/oauth/token/new'',
               params = [],
               json_body = Some (JDict [(''areaCode'', JStr ''sunsynk''),
                                        (''client_id'', JStr ''csp-web''),
                                        (''grant_type'', JStr ''password''),
                                        (''password'', JStr ''Y2lwaGVy''),
                                        (''source'', JStr ''sunsynk''),
                                        (''username'', JStr ''user@example.org'')]),
               headers = [(''Content-Type'', ''application/json'')],
               timeout = 10, verify = True\<rparr>"
    by (simp add: str_def)
  have q: "requests ?env ?rq (world cfg_state) = (Inr ?r, world cfg_state)"
    by (simp add: cloud_env_def cloud_requests_def)
  have s: "status_code ?r < 400 \<or> 600 \<le> status_code ?r"
    by simp
  have j: "json_loads ?env (body ?r) = Inr (JDict ?kvs)"
    by (simp add: cloud_env_def cloud_json_def)
  have m: "map_of ?kvs ''msg'' = Some (JStr ''Success'')"
    by simp
  have d: "map_of ?kvs ''data'' = Some (JDict [(''access_token'', JStr ''tok123'')])
           \<and> map_of [(''access_token'', JStr ''tok123'')] ''access_token'' = Some (JStr ''tok123'')"
    by simp
  show ?thesis
    using authenticate_result [OF options_json_API_Server(1,2,4) u q s j m d]
    by (simp add: str_def)
qed

subsection \<open>main.execute\_api\_calls\<close>

lemma fetch_data_calls:
  "calls (snd (fetch_data env f tok s d st)) = calls st @ [Getapi_call f tok s]"
  by (auto simp: fetch_data_def try_except_def bind_def print_colored_def print_def invoke_def
        logging_error_def split: prod.splits sum.splits)

lemma fetch_data_returns:
  "fst (getapi env f tok s (world st)) = Inr () \<Longrightarrow>
     fst (fetch_data env f tok s d st) = Inr () \<and> logfile (snd (fetch_data env f tok s d st)) = logfile st"
  by (auto simp: fetch_data_def try_except_def bind_def print_colored_def print_def invoke_def
        split: prod.splits sum.splits)

lemma fetch_data_catches:
  "fst (getapi env f tok s (world st)) = Inl e \<Longrightarrow> is_Exception (cls e) \<Longrightarrow>
     fst (fetch_data env f tok s d st) = Inr ()
     \<and> logfile (snd (fetch_data env f tok s d st))
         = logfile st @ [''Error fetching '' @ d @ '': '' @ msg e]"
  by (auto simp: fetch_data_def try_except_def bind_def print_colored_def print_def invoke_def
        logging_error_def split: prod.splits sum.splits)

lemma run_order_distinct: "distinct (run_order n p)"
  by (auto simp: run_order_def Let_def)

lemma run_order_set: "set (run_order n p) = {0..<n}"
  by (auto simp: run_order_def Let_def)

lemma run_order_mset: "mset (run_order n p) = mset [0..<n]"
  by (rule iffD1 [OF set_eq_iff_mset_eq_distinct])
     (simp_all add: run_order_distinct run_order_set)

lemma fetch_threads_nth:
  "i < length api_calls \<Longrightarrow>
     fetch_threads env tok s ! i = fetch_data env (fst (api_calls ! i)) tok s (snd (api_calls ! i))"
  by (simp add: fetch_threads_def case_prod_unfold)

lemma run_threads_calls:
  "\<forall>i\<in>set order. i < length api_calls \<Longrightarrow>
     calls (run_threads (fetch_threads env tok s) order st)
       = calls st @ map (\<lambda>i. Getapi_call (fst (api_calls ! i)) tok s) order"
  by (induction order arbitrary: st) (simp_all add: fetch_threads_nth fetch_data_calls)

lemma execute_api_calls_unfold:
  "execute_api_calls env tok s st =
     print_colored ''All API calls completed successfully!'' OKGREEN
       (run_threads (fetch_threads env tok s)
          (run_order (length api_calls) (schedule env (world st))) st)"
  by (simp add: execute_api_calls_def fetch_threads_def Let_def)

lemma execute_api_calls_returns: "fst (execute_api_calls env tok s st) = Inr ()"
  by (simp add: execute_api_calls_unfold print_colored_def print_def)

lemma execute_api_calls_calls:
  "calls (snd (execute_api_calls env tok s st))
     = calls st @ map (\<lambda>i. Getapi_call (fst (api_calls ! i)) tok s)
                      (run_order (length api_calls) (schedule env (world st)))"
  by (simp add: execute_api_calls_unfold print_colored_def print_def run_threads_calls run_order_set)

lemma execute_api_calls_mset:
  "mset (calls (snd (execute_api_calls env tok s st)))
     = mset (calls st) + mset (map (\<lambda>(f, d). Getapi_call f tok s) api_calls)"
proof -
  let ?g = "\<lambda>i. Getapi_call (fst (api_calls ! i)) tok s"
  have "mset (map ?g (run_order (length api_calls) (schedule env (world st))))
          = mset (map ?g [0..<length api_calls])"
    by (simp only: mset_map run_order_mset)
  also have "map ?g [0..<length api_calls] = map (\<lambda>(f, d). Getapi_call f tok s) api_calls"
    by (rule nth_equalityI) (simp_all add: case_prod_unfold)
  finally show ?thesis
    by (simp add: execute_api_calls_calls)
qed

lemma api_calls_distinct: "distinct (map fst api_calls)" "length api_calls = 8"
  by (simp_all add: api_calls_def)

lemma concat_single:
  "distinct xs \<Longrightarrow> i0 \<in> set xs \<Longrightarrow>
     concat (map (\<lambda>i. if i = i0 then [g i] else []) xs) = [g i0]"
proof (induction xs)
  case Nil
  then show ?case by simp
next
  case (Cons x xs)
  show ?case
  proof (cases "x = i0")
    case True
    with Cons.prems have "i0 \<notin> set xs" by simp
    then have "concat (map (\<lambda>i. if i = i0 then [g i] else []) xs) = []"
      by (induction xs) auto
    with True show ?thesis by simp
  next
    case False
    with Cons show ?thesis by simp
  qed
qed

lemma run_threads_log:
  assumes "\<forall>w. fst (getapi env f0 tok s w) = Inl e" and "is_Exception (cls e)"
    and "\<forall>f w. f \<noteq> f0 \<longrightarrow> fst (getapi env f tok s w) = Inr ()"
  shows "\<forall>i\<in>set order. i < length api_calls \<Longrightarrow>
     logfile (run_threads (fetch_threads env tok s) order st)
       = logfile st @ concat (map (\<lambda>i. if fst (api_calls ! i) = f0
             then [''Error fetching '' @ snd (api_calls ! i) @ '': '' @ msg e] else []) order)"
proof (induction order arbitrary: st)
  case Nil
  then show ?case by simp
next
  case (Cons i order)
  let ?f = "fst (api_calls ! i)" and ?d = "snd (api_calls ! i)"
  have i: "i < length api_calls" using Cons.prems by simp
  have step: "logfile (snd (fetch_data env ?f tok s ?d st))
      = logfile st @ (if ?f = f0 then [''Error fetching '' @ ?d @ '': '' @ msg e] else [])"
  proof (cases "?f = f0")
    case True
    then show ?thesis using fetch_data_catches [of env f0 tok s st e ?d] assms(1,2) by simp
  next
    case False
    then show ?thesis using fetch_data_returns [of env ?f tok s st ?d] assms(3) by simp
  qed
  show ?case
    using Cons.prems Cons.IH [of "snd (fetch_data env ?f tok s ?d st)"] step
    by (simp add: fetch_threads_nth [OF i])
qed

text \<open>
  C4. \<open>execute_api_calls\<close> starts one thread per entry of the registry, which has eight,
  and returns after all of them have run, in whatever order the scheduler runs them. Each
  registered operation is called exactly once for the device: none is skipped and none runs
  twice. When exactly one operation fails, raising an exception of class \<open>Exception\<close>,
  and the others return, the failure is caught in its own thread and recorded in the log
  under the label of that operation, and nothing else is recorded.
\<close>

theorem execute_api_calls_isolates_failure:
  assumes "(f0, d0) \<in> set api_calls"
    and "\<forall>w. fst (getapi env f0 bearer_token serial_item w) = Inl e"
    and "is_Exception (cls e)"
    and "\<forall>f w. f \<noteq> f0 \<longrightarrow> fst (getapi env f bearer_token serial_item w) = Inr ()"
  shows "length api_calls = 8
       \<and> fst (execute_api_calls env bearer_token serial_item st) = Inr ()
       \<and> mset (calls (snd (execute_api_calls env bearer_token serial_item st)))
           = mset (calls st)
             + mset (map (\<lambda>(f, d). Getapi_call f bearer_token serial_item) api_calls)
       \<and> logfile (snd (execute_api_calls env bearer_token serial_item st))
           = logfile st @ [''Error fetching '' @ d0 @ '': '' @ msg e]"
proof -
  let ?order = "run_order (length api_calls) (schedule env (world st))"
  obtain i0 where i0: "i0 < length api_calls" "api_calls ! i0 = (f0, d0)"
    using assms(1) by (auto simp: in_set_conv_nth)
  have eq: "fst (api_calls ! i) = f0 \<longleftrightarrow> i = i0" if "i < length api_calls" for i
    using that i0 api_calls_distinct(1) nth_eq_iff_index_eq [of "map fst api_calls" i i0]
    by auto
  define G where "G = (\<lambda>i. ''Error fetching '' @ snd (api_calls ! i) @ '': '' @ msg e)"
  have A: "map (\<lambda>i. if fst (api_calls ! i) = f0 then [G i] else []) ?order
      = map (\<lambda>i. if i = i0 then [G i] else []) ?order"
    by (rule map_cong) (simp_all add: run_order_set eq)
  have B: "concat (map (\<lambda>i. if i = i0 then [G i] else []) ?order) = [G i0]"
    by (rule concat_single) (simp_all add: run_order_distinct run_order_set i0)
  have C: "G i0 = ''Error fetching '' @ d0 @ '': '' @ msg e"
    by (simp add: G_def i0)
  have "logfile (run_threads (fetch_threads env bearer_token serial_item) ?order st)
      = logfile st @ concat (map (\<lambda>i. if fst (api_calls ! i) = f0 then [G i] else []) ?order)"
    unfolding G_def
    by (rule run_threads_log [OF assms(2,3,4)]) (simp add: run_order_set)
  then have "logfile (run_threads (fetch_threads env bearer_token serial_item) ?order st)
      = logfile st @ [''Error fetching '' @ d0 @ '': '' @ msg e]"
    by (simp only: A B C)
  then have "logfile (snd (execute_api_calls env bearer_token serial_item st))
           = logfile st @ [''Error fetching '' @ d0 @ '': '' @ msg e]"
    by (simp add: execute_api_calls_unfold print_colored_def print_def)
  then show ?thesis
    by (simp add: api_calls_distinct(2) execute_api_calls_returns execute_api_calls_mset)
qed

theorem execute_api_calls_isolates_failure_witness:
  "length api_calls = 8
   \<and> fst (execute_api_calls flaky_env (JStr ''tok123'') ''A1'' state0) = Inr ()
   \<and> mset (calls (snd (execute_api_calls flaky_env (JStr ''tok123'') ''A1'' state0)))
       = mset (calls state0)
         + mset (map (\<lambda>(f, d). Getapi_call f (JStr ''tok123'') ''A1'') api_calls)
   \<and> logfile (snd (execute_api_calls flaky_env (JStr ''tok123'') ''A1'' state0))
       = logfile state0 @ [''Error fetching '' @ ''Grid Data'' @ '': '' @ msg (Exn Timeout ''read timed out'')]"
proof -
  have a: "(GetGridData, ''Grid Data'') \<in> set api_calls"
    by (simp add: api_calls_def)
  have b: "\<forall>w. fst (getapi flaky_env GetGridData (JStr ''tok123'') ''A1'' w)
             = Inl (Exn Timeout ''read timed out'')"
    by (simp add: flaky_env_def)
  have c: "is_Exception (cls (Exn Timeout ''read timed out''))"
    by simp
  have d: "\<forall>f w. f \<noteq> GetGridData \<longrightarrow> fst (getapi flaky_env f (JStr ''tok123'') ''A1'' w) = Inr ()"
    by (simp add: flaky_env_def)
  show ?thesis
    by (rule execute_api_calls_isolates_failure [OF a b c d])
qed

subsection \<open>main.execute\_settings\_management\<close>

text \<open>
  C1, as amended. When the download of the provider settings and the step that reads and
  forwards the staged setting both return, whatever they did and whether or not the
  forwarded update succeeded inside them, \<open>execute_settings_management\<close> goes on to
  \<open>ResetSettingsEntity\<close> as its last call, returns, and leaves the staging entity of the
  device empty.
\<close>

theorem settings_cycle_resets:
  assumes "DownloadProviderSettings env bearer_token serial_item (world st) = (Inr (), w1)"
    and "GetNewSettingsFromHAEntity env bearer_token serial_item w1 = (Inr (), w2)"
  shows "fst (execute_settings_management env bearer_token serial_item st) = Inr ()
       \<and> staging (world (snd (execute_settings_management env bearer_token serial_item st)))
             serial_item = Some []
       \<and> calls (snd (execute_settings_management env bearer_token serial_item st))
           = calls st @ [DownloadProviderSettings_call bearer_token serial_item,
                         GetNewSettingsFromHAEntity_call bearer_token serial_item,
                         ResetSettingsEntity_call serial_item]"
  using assms
  by (simp add: execute_settings_management_def ResetSettingsEntity_def bind_def invoke_def
        print_def)

theorem settings_cycle_resets_witness:
  "fst (execute_settings_management cfg_env (JStr ''tok123'') ''A1'' staged_state) = Inr ()
   \<and> staging (world (snd (execute_settings_management cfg_env (JStr ''tok123'') ''A1'' staged_state)))
         ''A1'' = Some []
   \<and> calls (snd (execute_settings_management cfg_env (JStr ''tok123'') ''A1'' staged_state))
       = calls staged_state @ [DownloadProviderSettings_call (JStr ''tok123'') ''A1'',
                     GetNewSettingsFromHAEntity_call (JStr ''tok123'') ''A1'',
                     ResetSettingsEntity_call ''A1'']"
proof -
  have a: "DownloadProviderSettings cfg_env (JStr ''tok123'') ''A1'' (world staged_state)
             = (Inr (), world staged_state)"
    by (simp add: cfg_env_def quiet_env_def)
  have b: "GetNewSettingsFromHAEntity cfg_env (JStr ''tok123'') ''A1'' (world staged_state)
             = (Inr (), world staged_state)"
    by (simp add: cfg_env_def quiet_env_def)
  show ?thesis
    by (rule settings_cycle_resets [OF a b])
qed

text \<open>
  C1 as stated fails: when the download raises, the exception leaves
  \<open>execute_settings_management\<close> at once; \<open>ResetSettingsEntity\<close> is not called and the
  staged value of the device stays in place.
\<close>

theorem settings_cycle_skips_reset_counterexample:
  "fst (execute_settings_management download_fails_env (JStr ''tok123'') ''A1'' staged_state)
     = Inl (Exn ConnectionError ''provider unreachable'')
   \<and> calls (snd (execute_settings_management download_fails_env (JStr ''tok123'') ''A1'' staged_state))
     = [DownloadProviderSettings_call (JStr ''tok123'') ''A1'']
   \<and> staging (world (snd (execute_settings_management download_fails_env (JStr ''tok123'') ''A1''
         staged_state))) ''A1'' = Some ''work_mode=1''"
  by (simp add: execute_settings_management_def bind_def invoke_def download_fails_env_def
        cfg_env_def quiet_env_def staged_state_def cfg_state_def state0_def)

end
